theory Spec2Isabelle
  imports Main "HOL-Library.Sublist"
begin

section \<open>Errors and HTTP status codes\<close>

text \<open>
  Exceptions that the collaborators of the views and of the node settings can raise.
  \<open>OnedriveClientException\<close> carries its \<open>status_code\<close> and its \<open>message\<close>;
  \<open>MaxRetryError\<close> is urllib3's; \<open>AttributeError\<close> is what Python raises on an
  attribute access on \<open>None\<close>.
\<close>

datatype exn = OnedriveClientException nat string | MaxRetryError | AttributeError

text \<open>
  What an operation of this repository fails with: \<open>HTTPError(code)\<close> or
  \<open>HTTPError(code, data={'message_long': m})\<close>, \<open>AddonError(message)\<close>, or an
  exception of a collaborator that no \<open>except\<close> clause catches.
\<close>

datatype error = HTTPError nat "string option" | AddonError string | Raised exn

definition BAD_REQUEST :: nat where "BAD_REQUEST = 400"
definition FORBIDDEN :: nat where "FORBIDDEN = 403"
definition NOT_FOUND :: nat where "NOT_FOUND = 404"

section \<open>Users\<close>

record user =
  primary_key :: string
  username :: string

section \<open>Contributor abbreviation (website/project/views/contributor.py)\<close>

text \<open>\<open>xs[:k]\<close> of Python: a negative \<open>k\<close> counts from the end of the list.\<close>

definition slice_to :: "int \<Rightarrow> 'a list \<Rightarrow> 'a list" where
  "slice_to k xs =
     (if 0 \<le> k then take (nat k) xs else take (length xs - nat (- k)) xs)"

text \<open>
  \<open>others_count\<close> starts as the empty string and becomes a number in the overflow
  branch.
\<close>

datatype count_field = Blank | Count int

record abbrev =
  contributors :: "(string \<times> string) list"
  others_count :: count_field
  others_suffix :: string

text \<open>
  One round of the loop of \<open>get_node_contributors_abbrev\<close> (lines 49 to 65):
  \<open>n\<close> is \<open>len(users)\<close>, which is also \<open>n_contributors\<close>.
\<close>

definition abbrev_step :: "int \<Rightarrow> int \<Rightarrow> nat \<times> user \<Rightarrow> abbrev \<Rightarrow> abbrev" where
  "abbrev_step n max_count iu acc =
     (let index = int (fst iu); u = snd iu in
      if index = max_count - 1 \<and> n > max_count then
        acc\<lparr>contributors := contributors acc @ [(primary_key u, '' &'')],
            others_count := Count (n - 3),
            others_suffix := (if n - 3 > 1 then ''s'' else '''')\<rparr>
      else if index = n - 1 then
        acc\<lparr>contributors := contributors acc @ [(primary_key u, '''')]\<rparr>
      else if index = n - 2 then
        acc\<lparr>contributors := contributors acc @ [(primary_key u, '' &'')]\<rparr>
      else
        acc\<lparr>contributors := contributors acc @ [(primary_key u, '','')]\<rparr>)"

text \<open>Lines 44 to 71: the loop over \<open>enumerate(users[:max_count])\<close> and the result.\<close>

definition abbrev_body :: "user list \<Rightarrow> int \<Rightarrow> abbrev" where
  "abbrev_body users max_count =
     fold (abbrev_step (int (length users)) max_count)
          (enumerate 0 (slice_to max_count users))
          \<lparr>contributors = [], others_count = Blank, others_suffix = ''''\<rparr>"

text \<open>
  The view, after \<open>users\<close> has been resolved from the request: \<open>can_view\<close> is
  \<open>node_to_use.can_view(auth)\<close>.
\<close>

definition get_node_contributors_abbrev :: "bool \<Rightarrow> user list \<Rightarrow> int \<Rightarrow> error + abbrev" where
  "get_node_contributors_abbrev can_view users max_count =
     (if \<not> can_view then Inl (HTTPError FORBIDDEN None)
      else Inr (abbrev_body users max_count))"

definition separators :: "abbrev \<Rightarrow> string list" where
  "separators r = map snd (contributors r)"

definition mk_users :: "string list \<Rightarrow> user list" where
  "mk_users ks = map (\<lambda>k. \<lparr>primary_key = k, username = k @ ''@osf.io''\<rparr>) ks"

section \<open>Strings of Python\<close>

text \<open>\<open>sep.join(xs)\<close>.\<close>

fun join :: "string \<Rightarrow> string list \<Rightarrow> string" where
  "join sep [] = []"
| "join sep [x] = x"
| "join sep (x # y # ys) = x @ sep @ join sep (y # ys)"



text \<open>
  \<open>os.path.join(a, b)\<close> as \<open>posixpath\<close> computes it, that is on a POSIX host: a
  second component that starts with a slash discards the first, and no slash is added
  after an empty first component or one that ends with a slash. On a Windows host
  \<open>os.path\<close> is \<open>ntpath\<close>, which joins with a backslash.
\<close>

definition os_path_join :: "string \<Rightarrow> string \<Rightarrow> string" where
  "os_path_join a b =
     (if prefix ''/'' b then b
      else if a = [] \<or> suffix ''/'' a then a @ b
      else a @ ''/'' @ b)"

section \<open>Data of the Onedrive addon\<close>

text \<open>
  The metadata of a remote folder as \<open>client.get_folder\<close> returns it:
  \<open>path_collection\<close> holds the \<open>name\<close> of each entry of
  \<open>metadata['path_collection']['entries']\<close>, \<open>item_collection\<close> the entries of
  \<open>metadata['item_collection']['entries']\<close>, and \<open>is_deleted\<close> the truth value of
  \<open>metadata.get('is_deleted')\<close>.
\<close>

record item =
  item_id :: string
  item_name :: string
  item_type :: string

record metadata =
  md_name :: string
  path_collection :: "string list"
  item_collection :: "item list"
  is_deleted :: bool

record external_account =
  account_id :: string
  oauth_key :: string
  refresh_token :: string
  expires_at :: int

text \<open>
  The user-level settings record. \<open>us_has_auth\<close> is the \<open>has_auth\<close> property of its
  base class; \<open>oauth_grants\<close> holds one triple (node id, account id, folder) for each
  grant recorded.
\<close>

record user_settings =
  us_owner :: user
  us_has_auth :: bool
  oauth_grants :: "(string \<times> string option \<times> string option) list"

datatype log_extra = NoExtra | FolderId "string option"

record log_entry =
  log_action :: string
  log_auth :: "user option"
  log_extra :: log_extra

record node =
  node_id :: string
  node_contributors :: "user list"
  logs :: "log_entry list"

text \<open>What \<open>save()\<close> writes for a node-settings record.\<close>

record stored_row =
  row_folder_id :: "string option"
  row_folder_name :: string
  row_folder_path :: string
  row_credential :: "string option"

text \<open>
  \<open>OnedriveNodeSettings\<close>: the fields of the class, the in-process attribute
  \<open>_folder_data\<close> (here \<open>folder_data\<close>), and what has been persisted: the last row
  written and the number of calls of \<open>save()\<close>. \<open>folder_id\<close> is declared with
  \<open>default=None\<close> and is optional; \<open>folder_name\<close> and \<open>folder_path\<close> are the string
  fields of the linked folder and hold strings, empty before a folder is described.
  \<open>user_settings\<close> and \<open>external_account\<close> are the references of the base class, held
  here by value.
\<close>

record node_settings =
  owner :: node
  user_settings :: "user_settings option"
  external_account :: "external_account option"
  folder_id :: "string option"
  folder_name :: string
  folder_path :: string
  folder_data :: "metadata option"
  stored :: "stored_row option"
  saves :: nat

datatype client = Client string

text \<open>
  The collaborators that are not part of the addon, as parameters:
  \<open>refresh_oauth_key\<close> receives \<open>self.external_account\<close> (which may be \<open>None\<close>) and
  returns the account as it left it or raises; \<open>OnedriveClient\<close> is the constructor
  of the provider's client, called with the account's \<open>oauth_key\<close>; \<open>get_folder\<close> is
  the client's metadata fetch.
\<close>

record remote =
  refresh_oauth_key :: "external_account option \<Rightarrow> exn + external_account option"
  OnedriveClient :: "string \<Rightarrow> exn + client"
  get_folder :: "client \<Rightarrow> string \<Rightarrow> exn + metadata"

text \<open>Whether \<open>except OnedriveClientException\<close> catches the exception.\<close>

fun is_client_exception :: "exn \<Rightarrow> bool" where
  "is_client_exception (OnedriveClientException c m) = True"
| "is_client_exception MaxRetryError = False"
| "is_client_exception AttributeError = False"

section \<open>Node settings (website/addons/onedrive/model.py)\<close>

definition save :: "node_settings \<Rightarrow> node_settings" where
  "save s = s\<lparr>stored := Some \<lparr>row_folder_id = folder_id s,
                               row_folder_name = folder_name s,
                               row_folder_path = folder_path s,
                               row_credential = map_option account_id (external_account s)\<rparr>,
              saves := Suc (saves s)\<rparr>"

text \<open>
  Modelled from the spec: \<open>OnedriveNodeLogger\<close> of \<open>website/addons/onedrive/utils.py\<close>
  is not among the sources. Every state-changing operation appends an audit-log entry
  to the owning project, with an action tag and, for deauthorization, the folder id
  that was cleared.
\<close>

definition node_log :: "string \<Rightarrow> user option \<Rightarrow> log_extra \<Rightarrow> node_settings \<Rightarrow> node_settings" where
  "node_log action auth extra s =
     s\<lparr>owner := (owner s)\<lparr>logs := logs (owner s) @
          [\<lparr>log_action = action, log_auth = auth, log_extra = extra\<rparr>]\<rparr>\<rparr>"

text \<open>
  Modelled from the spec: \<open>verify_oauth_access\<close> and \<open>grant_oauth_access\<close> of the base
  class \<open>AddonOAuthUserSettingsBase\<close> are not among the sources. The per-user record
  holds the grants; a project-level record is fully authorized when a grant links the
  project to the credential, and \<open>grant_oauth_access\<close> records such a grant.
\<close>

definition verify_oauth_access :: "user_settings \<Rightarrow> node \<Rightarrow> external_account option \<Rightarrow> bool" where
  "verify_oauth_access us n acct =
     (\<exists>g \<in> set (oauth_grants us). fst g = node_id n \<and> fst (snd g) = map_option account_id acct)"

definition grant_oauth_access ::
  "user_settings \<Rightarrow> node \<Rightarrow> external_account option \<Rightarrow> string option \<Rightarrow> user_settings" where
  "grant_oauth_access us n acct folder =
     us\<lparr>oauth_grants := oauth_grants us @ [(node_id n, map_option account_id acct, folder)]\<rparr>"

text \<open>
  Modelled from the spec: \<open>clear_auth\<close> of the base class
  \<open>AddonOAuthNodeSettingsBase\<close> is not among the sources; it clears the credential
  reference of the project-level record.
\<close>

definition clear_auth :: "node_settings \<Rightarrow> node_settings" where
  "clear_auth s = s\<lparr>external_account := None, user_settings := None\<rparr>"

definition has_auth :: "node_settings \<Rightarrow> bool" where
  "has_auth s = (case user_settings s of None \<Rightarrow> False | Some us \<Rightarrow> us_has_auth us)"

definition complete :: "node_settings \<Rightarrow> bool" where
  "complete s =
     (case user_settings s of
        None \<Rightarrow> False
      | Some us \<Rightarrow> us_has_auth us \<and> verify_oauth_access us (owner s) (external_account s))"

text \<open>
  Lines 115 to 117 and lines 153 to 159: the token refresh, the construction of the
  client from the refreshed account's key, and the metadata fetch. The first component
  of the result is the account as the refresh left it.
\<close>

definition fetch_metadata ::
  "remote \<Rightarrow> external_account option \<Rightarrow> string \<Rightarrow> external_account option \<times> (exn + metadata)" where
  "fetch_metadata r acct fid =
     (case refresh_oauth_key r acct of
        Inl e \<Rightarrow> (acct, Inl e)
      | Inr acct' \<Rightarrow>
          (case acct' of
             None \<Rightarrow> (acct', Inl AttributeError)
           | Some a \<Rightarrow>
               (case OnedriveClient r (oauth_key a) of
                  Inl e \<Rightarrow> (acct', Inl e)
                | Inr c \<Rightarrow> (acct', get_folder r c fid))))"

definition update_folder_data :: "remote \<Rightarrow> node_settings \<Rightarrow> node_settings \<times> (error + unit)" where
  "update_folder_data r s =
     (case folder_id s of
        None \<Rightarrow> (s, Inr ())
      | Some fid \<Rightarrow>
          (case folder_data s of
             Some d \<Rightarrow> (s, Inr ())
           | None \<Rightarrow>
               (case fetch_metadata r (external_account s) fid of
                  (acct', Inl e) \<Rightarrow>
                    (if is_client_exception e then (s\<lparr>external_account := acct'\<rparr>, Inr ())
                     else (s\<lparr>external_account := acct'\<rparr>, Inl (Raised e)))
                | (acct', Inr md) \<Rightarrow>
                    (save (s\<lparr>external_account := acct',
                              folder_data := Some md,
                              folder_name := md_name md,
                              folder_path := join ''/'' (path_collection md @ [md_name md])\<rparr>),
                     Inr ()))))"



definition set_folder ::
  "remote \<Rightarrow> string \<Rightarrow> user option \<Rightarrow> node_settings \<Rightarrow> node_settings \<times> (error + unit)" where
  "set_folder r fid auth s =
     (case update_folder_data r (s\<lparr>folder_id := Some fid\<rparr>) of
        (s1, Inl e) \<Rightarrow> (s1, Inl e)
      | (s1, Inr u) \<Rightarrow>
          (let s2 = save s1 in
           if \<not> complete s2 then
             (case user_settings s2 of
                None \<Rightarrow> (s2, Inl (Raised AttributeError))
              | Some us \<Rightarrow>
                  (node_log ''folder_selected'' auth NoExtra
                     (s2\<lparr>user_settings :=
                           Some (grant_oauth_access us (owner s2) (external_account s2) (folder_id s2))\<rparr>),
                   Inr ()))
           else (node_log ''folder_selected'' auth NoExtra s2, Inr ())))"

definition deauthorize ::
  "remote \<Rightarrow> user option \<Rightarrow> bool \<Rightarrow> node_settings \<Rightarrow> node_settings \<times> (error + unit)" where
  "deauthorize r auth add_log s =
     (let s1 = (if add_log then node_log ''node_deauthorized'' auth (FolderId (folder_id s)) s
                else s)
      in case update_folder_data r (s1\<lparr>folder_id := None\<rparr>) of
           (s2, Inl e) \<Rightarrow> (s2, Inl e)
         | (s2, Inr u) \<Rightarrow> (save (clear_auth (s2\<lparr>user_settings := None\<rparr>)), Inr ()))"

definition serialize_waterbutler_credentials ::
  "remote \<Rightarrow> node_settings \<Rightarrow> node_settings \<times> (error + (string \<times> string) list)" where
  "serialize_waterbutler_credentials r s =
     (if \<not> has_auth s then (s, Inl (AddonError ''Addon is not authorized''))
      else
        (case refresh_oauth_key r (external_account s) of
           Inl (OnedriveClientException code msg) \<Rightarrow> (s, Inl (HTTPError code (Some msg)))
         | Inl MaxRetryError \<Rightarrow> (s, Inl (Raised MaxRetryError))
         | Inl AttributeError \<Rightarrow> (s, Inl (Raised AttributeError))
         | Inr acct' \<Rightarrow>
             (case acct' of
                None \<Rightarrow> (s\<lparr>external_account := acct'\<rparr>, Inl (Raised AttributeError))
              | Some a \<Rightarrow> (s\<lparr>external_account := acct'\<rparr>, Inr [(''token'', oauth_key a)]))))"

definition serialize_waterbutler_settings :: "node_settings \<Rightarrow> error + (string \<times> string) list" where
  "serialize_waterbutler_settings s =
     (case folder_id s of
        None \<Rightarrow> Inl (AddonError ''Folder is not configured'')
      | Some fid \<Rightarrow> Inr [(''folder'', fid)])"

text \<open>
  Modelled from the spec: \<open>refresh_oauth_key\<close> of \<open>website/addons/onedrive/utils.py\<close>
  is not among the sources. The spec's Token Refresher returns an unexpired credential
  unchanged; for an expired one it calls the external refresh endpoint with the
  refresh token, on success stores the new access and refresh token pair (with its
  expiry) and returns it, and on failure fails with the error of the endpoint, which is
  the provider-client exception that the callers catch. \<open>now\<close> is the time of the
  call; an attribute access on a missing account raises \<open>AttributeError\<close>.
\<close>

record token_response =
  new_access_token :: string
  new_refresh_token :: string
  new_expiry :: int

definition expired :: "int \<Rightarrow> external_account \<Rightarrow> bool" where
  "expired now a = (expires_at a \<le> now)"

definition ensure_fresh ::
  "int \<Rightarrow> (string \<Rightarrow> exn + token_response) \<Rightarrow> external_account option
     \<Rightarrow> exn + external_account option" where
  "ensure_fresh now endpoint acct =
     (case acct of
        None \<Rightarrow> Inl AttributeError
      | Some a \<Rightarrow>
          (if \<not> expired now a then Inr (Some a)
           else (case endpoint (refresh_token a) of
                   Inl e \<Rightarrow> Inl e
                 | Inr t \<Rightarrow> Inr (Some (a\<lparr>oauth_key := new_access_token t,
                                          refresh_token := new_refresh_token t,
                                          expires_at := new_expiry t\<rparr>)))))"

section \<open>Views (website/addons/onedrive/views.py)\<close>

text \<open>
  \<open>onedrive_get_share_emails\<close>, lines 113 to 127: \<open>caller\<close> is \<open>auth.user\<close>, and the
  result is the list under \<open>result.emails\<close>.
\<close>

definition onedrive_get_share_emails :: "user \<Rightarrow> node_settings \<Rightarrow> error + string list" where
  "onedrive_get_share_emails caller node_addon =
     (case user_settings node_addon of
        None \<Rightarrow> Inl (HTTPError BAD_REQUEST None)
      | Some us \<Rightarrow>
          (if us_owner us \<noteq> caller then Inl (HTTPError FORBIDDEN None)
           else Inr (map username
                      (filter (\<lambda>contrib. contrib \<noteq> caller)
                         (node_contributors (owner node_addon))))))"

record folder_entry =
  entry_addon :: string
  entry_kind :: string
  entry_id :: string
  entry_name :: string
  entry_path :: string
  entry_folders_url :: string

text \<open>
  One element of the list comprehension of lines 176 to 189, for an item that passed
  the filter. \<open>api_url_for\<close> is the URL builder of the web framework, called with the
  node, the name of the view and the \<open>folderId\<close> argument.
\<close>

definition child_entry ::
  "(node \<Rightarrow> string \<Rightarrow> string \<Rightarrow> string) \<Rightarrow> node \<Rightarrow> string \<Rightarrow> item \<Rightarrow> folder_entry" where
  "child_entry api_url_for n fpath it =
     \<lparr>entry_addon = ''onedrive'',
      entry_kind = ''folder'',
      entry_id = item_id it,
      entry_name = item_name it,
      entry_path = os_path_join fpath (item_name it),
      entry_folders_url = api_url_for n ''onedrive_folder_list'' (item_id it)\<rparr>"

text \<open>
  \<open>onedrive_folder_list\<close>, lines 134 to 189: \<open>folder_id\<close> is
  \<open>request.args.get('folderId')\<close>. The state returned is the node addon with the
  account as the token refresh left it.
\<close>

definition onedrive_folder_list ::
  "remote \<Rightarrow> (node \<Rightarrow> string \<Rightarrow> string \<Rightarrow> string) \<Rightarrow> node_settings \<Rightarrow> string option
     \<Rightarrow> node_settings \<times> (error + folder_entry list)" where
  "onedrive_folder_list r api_url_for node_addon folder_id_arg =
     (if \<not> has_auth node_addon then (node_addon, Inl (HTTPError FORBIDDEN None))
      else
        (case folder_id_arg of
           None \<Rightarrow>
             (node_addon,
              Inr [\<lparr>entry_addon = ''onedrive'',
                    entry_kind = ''folder'',
                    entry_id = ''0'',
                    entry_name = ''/ (Full Onedrive)'',
                    entry_path = ''All Files'',
                    entry_folders_url =
                      api_url_for (owner node_addon) ''onedrive_folder_list'' ''0''\<rparr>])
         | Some fid \<Rightarrow>
             (case refresh_oauth_key r (external_account node_addon) of
                Inl e \<Rightarrow>
                  (if is_client_exception e then (node_addon, Inl (HTTPError FORBIDDEN None))
                   else (node_addon, Inl (Raised e)))
              | Inr acct' \<Rightarrow>
                  (let s1 = node_addon\<lparr>external_account := acct'\<rparr> in
                   case acct' of
                     None \<Rightarrow> (s1, Inl (Raised AttributeError))
                   | Some a \<Rightarrow>
                       (case OnedriveClient r (oauth_key a) of
                          Inl e \<Rightarrow>
                            (if is_client_exception e then (s1, Inl (HTTPError FORBIDDEN None))
                             else (s1, Inl (Raised e)))
                        | Inr c \<Rightarrow>
                            (case get_folder r c fid of
                               Inl (OnedriveClientException code msg) \<Rightarrow>
                                 (s1, Inl (HTTPError NOT_FOUND None))
                             | Inl MaxRetryError \<Rightarrow> (s1, Inl (HTTPError BAD_REQUEST None))
                             | Inl AttributeError \<Rightarrow> (s1, Inl (Raised AttributeError))
                             | Inr md \<Rightarrow>
                                 (if is_deleted md then (s1, Inl (HTTPError NOT_FOUND None))
                                  else
                                    (let fpath = join ''/'' (path_collection md @ [md_name md])
                                     in (s1,
                                         Inr (map (child_entry api_url_for (owner node_addon) fpath)
                                                (filter (\<lambda>it. item_type it = ''folder'')
                                                   (item_collection md))))))))))))"

section \<open>Sample data\<close>

text \<open>Concrete users, a project and node settings on which the operations are run.\<close>

definition alice :: user where
  "alice = \<lparr>primary_key = ''u1'', username = ''alice@osf.io''\<rparr>"

definition bob :: user where
  "bob = \<lparr>primary_key = ''u2'', username = ''bob@osf.io''\<rparr>"

definition sample_node :: node where
  "sample_node = \<lparr>node_id = ''n1'', node_contributors = [alice, bob], logs = []\<rparr>"

definition sample_account :: external_account where
  "sample_account =
     \<lparr>account_id = ''acct1'', oauth_key = ''tok-old'', refresh_token = ''ref-old'',
      expires_at = 100\<rparr>"

text \<open>An authorized node with no folder selected, and one with nothing linked.\<close>

definition authorized_addon :: node_settings where
  "authorized_addon =
     \<lparr>owner = sample_node,
      user_settings = Some \<lparr>us_owner = alice, us_has_auth = True, oauth_grants = []\<rparr>,
      external_account = Some sample_account, folder_id = None, folder_name = [],
      folder_path = [], folder_data = None, stored = None, saves = 0\<rparr>"

definition unlinked_addon :: node_settings where
  "unlinked_addon = authorized_addon\<lparr>user_settings := None, external_account := None\<rparr>"

text \<open>
  The remote folder of the scenario of the spec's section 8, the same folder with a
  child whose name starts with a slash, another folder, and the root of an account.
\<close>

definition reports_md :: metadata where
  "reports_md =
     \<lparr>md_name = ''Reports'', path_collection = [''Documents''],
      item_collection =
        [\<lparr>item_id = ''1'', item_name = ''Q1'', item_type = ''folder''\<rparr>,
         \<lparr>item_id = ''2'', item_name = ''notes.txt'', item_type = ''file''\<rparr>],
      is_deleted = False\<rparr>"




text \<open>
  A provider whose token refresh and client construction succeed and leave the account
  as it is, and whose metadata fetch has the outcome \<open>x\<close>; and a provider whose token
  refresh raises \<open>e\<close>.
\<close>

definition remote_of :: "exn + metadata \<Rightarrow> remote" where
  "remote_of x =
     \<lparr>refresh_oauth_key = Inr, OnedriveClient = (\<lambda>k. Inr (Client k)),
      get_folder = (\<lambda>c fid. x)\<rparr>"

definition failing_refresh :: "exn \<Rightarrow> remote" where
  "failing_refresh e = (remote_of (Inr reports_md))\<lparr>refresh_oauth_key := (\<lambda>a. Inl e)\<rparr>"

definition url_for :: "node \<Rightarrow> string \<Rightarrow> string \<Rightarrow> string" where
  "url_for n view fid = node_id n @ ''/'' @ view @ ''?folderId='' @ fid"

text \<open>
  A node configured for the folder of the scenario with the metadata of that folder
  cached on the instance, and the same node with nothing cached and an older name.
\<close>

definition configured_addon :: node_settings where
  "configured_addon =
     authorized_addon\<lparr>folder_id := Some ''123'', folder_name := ''Reports'',
       folder_path := ''Documents/Reports'', folder_data := Some reports_md\<rparr>"


text \<open>
  A provider whose token refresh is the Token Refresher of the spec at the time \<open>now\<close>
  over the refresh endpoint \<open>endpoint\<close>; an endpoint that issues a token and one that
  rejects the refresh token.
\<close>

definition refreshing_remote :: "int \<Rightarrow> (string \<Rightarrow> exn + token_response) \<Rightarrow> remote" where
  "refreshing_remote now endpoint =
     (remote_of (Inr reports_md))\<lparr>refresh_oauth_key := ensure_fresh now endpoint\<rparr>"

definition issue_token :: "string \<Rightarrow> exn + token_response" where
  "issue_token rt =
     Inr \<lparr>new_access_token = ''tok-new'', new_refresh_token = ''ref-new'', new_expiry = 3800\<rparr>"

definition reject_token :: "string \<Rightarrow> exn + token_response" where
  "reject_token rt = Inl (OnedriveClientException 401 ''invalid_grant'')"

section \<open>Properties of the string operations\<close>










section \<open>Properties of the contributor abbreviation\<close>

text \<open>
  For the default \<open>max_count = 3\<close> the separators of one to five users are those of the
  spec's table.
\<close>

lemma abbrev_three_table:
  "separators (abbrev_body (mk_users [''a'']) 3) = [[]]"
  "separators (abbrev_body (mk_users [''a'', ''b'']) 3) = ['' &'', []]"
  "separators (abbrev_body (mk_users [''a'', ''b'', ''c'']) 3) = ['','', '' &'', []]"
  "separators (abbrev_body (mk_users [''a'', ''b'', ''c'', ''d'']) 3) = ['','', '','', '' &'']"
  "separators (abbrev_body (mk_users [''a'', ''b'', ''c'', ''d'', ''e'']) 3) = ['','', '','', '' &'']"
  by (simp_all add: separators_def abbrev_body_def abbrev_step_def slice_to_def mk_users_def
        enumerate_eq_zip upt_rec)

text \<open>
  C1. The abbreviation is claimed to set the overflow count to \<open>n - max_count\<close>, with
  the suffix \<open>s\<close> when that count exceeds one. The code subtracts the constant 3
  whatever \<open>max_count\<close> is: for four users and \<open>max_count = 2\<close> it reports one other
  and no suffix, where two users are left out.
\<close>

theorem C1_overflow_count_subtracts_three:
  "get_node_contributors_abbrev True (mk_users [''a'', ''b'', ''c'', ''d'']) 2 =
     Inr \<lparr>contributors = [(''a'', '',''), (''b'', '' &'')],
          others_count = Count 1, others_suffix = []\<rparr>"
  by (simp add: get_node_contributors_abbrev_def abbrev_body_def abbrev_step_def slice_to_def
        mk_users_def enumerate_eq_zip upt_rec)

section \<open>Properties of the views\<close>

lemma has_auth_samples: "has_auth authorized_addon" "\<not> has_auth unlinked_addon"
  by (simp_all add: has_auth_def authorized_addon_def unlinked_addon_def)

text \<open>
  C9. The contributor e-mails for sharing are returned only to the user who linked the
  credential: the view fails with a bad-request error exactly when no user settings are
  linked, with a forbidden error exactly when user settings are linked and their owner
  is not the caller, and succeeds exactly when the caller is that owner; the result is
  then the usernames of the node's contributors other than the caller, in order.
\<close>

theorem C9_share_emails:
  "(onedrive_get_share_emails caller node_addon = Inl (HTTPError BAD_REQUEST None)
      \<longleftrightarrow> user_settings node_addon = None)
   \<and> (onedrive_get_share_emails caller node_addon = Inl (HTTPError FORBIDDEN None)
      \<longleftrightarrow> (\<exists>us. user_settings node_addon = Some us \<and> us_owner us \<noteq> caller))
   \<and> (\<forall>emails. onedrive_get_share_emails caller node_addon = Inr emails
      \<longleftrightarrow> (\<exists>us. user_settings node_addon = Some us \<and> us_owner us = caller)
          \<and> emails = map username
               (filter (\<lambda>contrib. contrib \<noteq> caller) (node_contributors (owner node_addon))))"
  by (auto simp: onedrive_get_share_emails_def BAD_REQUEST_def FORBIDDEN_def split: option.splits)

theorem C9_share_emails_witness:
  "onedrive_get_share_emails alice authorized_addon = Inr [''bob@osf.io'']
   \<and> onedrive_get_share_emails bob authorized_addon = Inl (HTTPError FORBIDDEN None)
   \<and> onedrive_get_share_emails alice unlinked_addon = Inl (HTTPError BAD_REQUEST None)"
  using C9_share_emails [of alice authorized_addon] C9_share_emails [of bob authorized_addon]
    C9_share_emails [of alice unlinked_addon]
  by (simp add: authorized_addon_def unlinked_addon_def sample_node_def alice_def bob_def)




text \<open>
  A metadata fetch that fails with a provider-client exception, here one that reports
  a permission problem, is answered with not-found and not with forbidden.
\<close>

theorem C3_counterexample:
  "snd (onedrive_folder_list (remote_of (Inl (OnedriveClientException 403 ''Forbidden'')))
          url_for authorized_addon (Some ''123'')) = Inl (HTTPError NOT_FOUND None)
   \<and> HTTPError NOT_FOUND None \<noteq> HTTPError FORBIDDEN None"
  by (simp add: onedrive_folder_list_def has_auth_def remote_of_def authorized_addon_def
      NOT_FOUND_def FORBIDDEN_def)

text \<open>
  C3, as amended. For a folder id given on a node without authorization the listing
  fails with forbidden. On a node that has authorization it fails with not-found
  exactly when the fetch raises a provider-client exception or returns a record marked
  deleted; with bad-request, the client-retryable answer, exactly when the fetch raises
  \<open>MaxRetryError\<close>; and with forbidden exactly when the token refresh or the
  construction of the client raises a provider-client exception.
\<close>

theorem C3_error_mapping:
  "(\<not> has_auth node_addon \<longrightarrow>
      snd (onedrive_folder_list r api_url_for node_addon (Some fid)) = Inl (HTTPError FORBIDDEN None))
   \<and> (has_auth node_addon \<longrightarrow>
      (snd (onedrive_folder_list r api_url_for node_addon (Some fid)) = Inl (HTTPError NOT_FOUND None)
        \<longleftrightarrow> (\<exists>a c. refresh_oauth_key r (external_account node_addon) = Inr (Some a)
               \<and> OnedriveClient r (oauth_key a) = Inr c
               \<and> ((\<exists>code msg. get_folder r c fid = Inl (OnedriveClientException code msg))
                   \<or> (\<exists>md. get_folder r c fid = Inr md \<and> is_deleted md))))
      \<and> (snd (onedrive_folder_list r api_url_for node_addon (Some fid)) = Inl (HTTPError BAD_REQUEST None)
        \<longleftrightarrow> (\<exists>a c. refresh_oauth_key r (external_account node_addon) = Inr (Some a)
               \<and> OnedriveClient r (oauth_key a) = Inr c
               \<and> get_folder r c fid = Inl MaxRetryError))
      \<and> (snd (onedrive_folder_list r api_url_for node_addon (Some fid)) = Inl (HTTPError FORBIDDEN None)
        \<longleftrightarrow> (\<exists>e. is_client_exception e
               \<and> (refresh_oauth_key r (external_account node_addon) = Inl e
                   \<or> (\<exists>a. refresh_oauth_key r (external_account node_addon) = Inr (Some a)
                          \<and> OnedriveClient r (oauth_key a) = Inl e)))))"
proof (cases "has_auth node_addon")
  case False
  then show ?thesis by (simp add: onedrive_folder_list_def)
next
  case True
  then show ?thesis
    by (auto simp: onedrive_folder_list_def Let_def NOT_FOUND_def BAD_REQUEST_def FORBIDDEN_def
        split: sum.splits option.splits exn.splits)
qed

theorem C3_error_mapping_witness:
  "snd (onedrive_folder_list (remote_of (Inr (reports_md\<lparr>is_deleted := True\<rparr>)))
          url_for authorized_addon (Some ''123'')) = Inl (HTTPError NOT_FOUND None)
   \<and> snd (onedrive_folder_list (remote_of (Inl MaxRetryError))
            url_for authorized_addon (Some ''123'')) = Inl (HTTPError BAD_REQUEST None)
   \<and> snd (onedrive_folder_list (failing_refresh (OnedriveClientException 401 ''expired''))
            url_for authorized_addon (Some ''123'')) = Inl (HTTPError FORBIDDEN None)
   \<and> snd (onedrive_folder_list (remote_of (Inr reports_md))
            url_for unlinked_addon (Some ''123'')) = Inl (HTTPError FORBIDDEN None)"
  using has_auth_samples
    C3_error_mapping [of authorized_addon "remote_of (Inr (reports_md\<lparr>is_deleted := True\<rparr>))"
      url_for "''123''"]
    C3_error_mapping [of authorized_addon "remote_of (Inl MaxRetryError)" url_for "''123''"]
    C3_error_mapping [of authorized_addon
      "failing_refresh (OnedriveClientException 401 ''expired'')" url_for "''123''"]
    C3_error_mapping [of unlinked_addon "remote_of (Inr reports_md)" url_for "''123''"]
  by (simp add: remote_of_def failing_refresh_def authorized_addon_def)




section \<open>Properties of the node settings\<close>





text \<open>The cache is never replaced once it is filled: \<open>set_folder\<close> keeps it.\<close>

lemma set_folder_keeps_cache:
  "folder_data s = Some d \<Longrightarrow>
     (case set_folder r fid auth s of
        (s', res) \<Rightarrow> folder_data s' = Some d \<and> folder_name s' = folder_name s
                     \<and> folder_path s' = folder_path s)"
  by (auto simp: set_folder_def update_folder_data_def Let_def save_def node_log_def
      split: option.splits)




text \<open>
  For every node, \<open>deauthorize\<close> returns normally with the folder id and the credential
  reference cleared, and leaves name, path and cache alone.
\<close>

lemma deauthorize_unconfigures:
  "case deauthorize r auth add_log s of
     (s', res) \<Rightarrow> res = Inr () \<and> folder_id s' = None \<and> user_settings s' = None
       \<and> external_account s' = None \<and> folder_name s' = folder_name s
       \<and> folder_path s' = folder_path s \<and> folder_data s' = folder_data s"
  by (simp add: deauthorize_def update_folder_data_def save_def clear_auth_def node_log_def Let_def)

text \<open>
  C6. \<open>deauthorize\<close> is claimed to clear the folder id, the cached folder metadata
  and the credential reference. On a configured node it clears the id and the
  credential, but its call of \<open>_update_folder_data\<close> returns at once because the id is
  already \<open>None\<close>: the cached metadata, the name and the path of the folder stay, and
  the row that is saved keeps the name and the path.
\<close>

theorem C6_deauthorize_keeps_metadata:
  "case deauthorize (remote_of (Inr reports_md)) (Some alice) True configured_addon of
     (s', res) \<Rightarrow>
       res = Inr () \<and> folder_id s' = None \<and> user_settings s' = None \<and> external_account s' = None
       \<and> folder_name s' = ''Reports'' \<and> folder_path s' = ''Documents/Reports''
       \<and> folder_data s' = Some reports_md
       \<and> stored s' = Some \<lparr>row_folder_id = None, row_folder_name = ''Reports'',
                            row_folder_path = ''Documents/Reports'', row_credential = None\<rparr>"
  by (simp add: deauthorize_def update_folder_data_def configured_addon_def authorized_addon_def
      save_def clear_auth_def node_log_def Let_def)

text \<open>
  With a credential linked, an expired token and a refresh endpoint that rejects the
  refresh token, no token is returned: the client exception is turned into an HTTP
  error with its status code.
\<close>

theorem C7_counterexample:
  "has_auth authorized_addon
   \<and> snd (serialize_waterbutler_credentials (refreshing_remote 200 reject_token) authorized_addon)
       = Inl (HTTPError 401 (Some ''invalid_grant''))"
  by (simp add: serialize_waterbutler_credentials_def refreshing_remote_def remote_of_def
      ensure_fresh_def expired_def reject_token_def authorized_addon_def sample_account_def
      has_auth_def)

text \<open>
  C7, as amended, with the Token Refresher of the spec for \<open>refresh_oauth_key\<close>.
  \<open>serialize_waterbutler_credentials\<close> fails with \<open>AddonError\<close> exactly when the node
  has no authorization. Otherwise, with an unexpired stored token it returns that token
  and changes nothing; with an expired one and a refresh that succeeds it stores the new
  token pair and returns the new token; with an expired one and a refresh that raises a
  provider-client exception it fails with an HTTP error carrying the status code and
  the message of the exception. \<open>serialize_waterbutler_settings\<close> fails with
  \<open>AddonError\<close> exactly when the folder id is \<open>None\<close>, and otherwise returns the
  folder id under the key \<open>folder\<close>.
\<close>

theorem C7_serialize:
  assumes "refresh_oauth_key r = ensure_fresh now endpoint"
  shows
   "((\<exists>m. snd (serialize_waterbutler_credentials r s) = Inl (AddonError m)) \<longleftrightarrow> \<not> has_auth s)
    \<and> (\<forall>a. has_auth s \<and> external_account s = Some a \<and> \<not> expired now a \<longrightarrow>
          serialize_waterbutler_credentials r s = (s, Inr [(''token'', oauth_key a)]))
    \<and> (\<forall>a t. has_auth s \<and> external_account s = Some a \<and> expired now a
              \<and> endpoint (refresh_token a) = Inr t \<longrightarrow>
          serialize_waterbutler_credentials r s =
            (s\<lparr>external_account := Some (a\<lparr>oauth_key := new_access_token t,
                                            refresh_token := new_refresh_token t,
                                            expires_at := new_expiry t\<rparr>)\<rparr>,
             Inr [(''token'', new_access_token t)]))
    \<and> (\<forall>a code msg. has_auth s \<and> external_account s = Some a \<and> expired now a
              \<and> endpoint (refresh_token a) = Inl (OnedriveClientException code msg) \<longrightarrow>
          serialize_waterbutler_credentials r s = (s, Inl (HTTPError code (Some msg))))
    \<and> ((\<exists>m. serialize_waterbutler_settings s = Inl (AddonError m)) \<longleftrightarrow> folder_id s = None)
    \<and> (\<forall>fid. folder_id s = Some fid \<longrightarrow> serialize_waterbutler_settings s = Inr [(''folder'', fid)])"
proof -
  have "(\<exists>m. snd (serialize_waterbutler_credentials r s) = Inl (AddonError m)) \<longleftrightarrow> \<not> has_auth s"
    by (auto simp: serialize_waterbutler_credentials_def split: sum.splits exn.splits option.splits)
  moreover have "(\<exists>m. serialize_waterbutler_settings s = Inl (AddonError m)) \<longleftrightarrow> folder_id s = None"
    by (auto simp: serialize_waterbutler_settings_def split: option.splits)
  ultimately show ?thesis
    using assms
    by (simp add: serialize_waterbutler_credentials_def ensure_fresh_def
        serialize_waterbutler_settings_def)
qed

theorem C7_serialize_witness:
  "serialize_waterbutler_credentials (refreshing_remote 200 issue_token) authorized_addon
     = (authorized_addon\<lparr>external_account :=
          Some (sample_account\<lparr>oauth_key := ''tok-new'', refresh_token := ''ref-new'',
                  expires_at := 3800\<rparr>)\<rparr>,
        Inr [(''token'', ''tok-new'')])
   \<and> serialize_waterbutler_credentials (refreshing_remote 50 issue_token) authorized_addon
       = (authorized_addon, Inr [(''token'', ''tok-old'')])
   \<and> snd (serialize_waterbutler_credentials (refreshing_remote 200 issue_token) unlinked_addon)
       = Inl (AddonError ''Addon is not authorized'')
   \<and> serialize_waterbutler_settings configured_addon = Inr [(''folder'', ''123'')]"
proof -
  have r: "refresh_oauth_key (refreshing_remote now issue_token) = ensure_fresh now issue_token" for now
    by (simp add: refreshing_remote_def)
  have acc: "external_account authorized_addon = Some sample_account"
    and f: "folder_id configured_addon = Some ''123''"
    by (simp_all add: authorized_addon_def configured_addon_def)
  have e: "expired 200 sample_account" "\<not> expired 50 sample_account"
    "oauth_key sample_account = ''tok-old''"
    by (simp_all add: expired_def sample_account_def)
  have t: "issue_token (refresh_token sample_account) =
      Inr \<lparr>new_access_token = ''tok-new'', new_refresh_token = ''ref-new'', new_expiry = 3800\<rparr>"
    by (simp add: issue_token_def)
  have u: "snd (serialize_waterbutler_credentials (refreshing_remote 200 issue_token) unlinked_addon)
       = Inl (AddonError ''Addon is not authorized'')"
    by (simp add: serialize_waterbutler_credentials_def has_auth_samples)
  show ?thesis
    using acc f e t u has_auth_samples
      C7_serialize [OF r, of 200 authorized_addon]
      C7_serialize [OF r, of 50 authorized_addon]
      C7_serialize [OF r, of 200 unlinked_addon]
      C7_serialize [OF r, of 200 configured_addon]
    by simp
qed

end
